theory Spec2Isabelle
  imports Complex_Main "HOL-Library.Char_ord" "HOL-Library.List_Lexorder"
    "HOL-Library.Product_Lexorder" "HOL-Library.Sublist"
begin

section \<open>Data model of the typed API client (frontend/src/api.ts)\<close>

text \<open>
  A JavaScript string is modelled as a \<^typ>\<open>string\<close> whose characters are the code
  units below 256 (the Latin-1 range). Two glyphs of the canned reply templates lie
  outside that range (an em dash and a right arrow); they are written
  \<open>--\<close> and \<open>->\<close> here. No property below reads them.
\<close>

datatype role = User | Assistant

record ChatMessageOut =
  msg_id :: string
  role :: role
  content :: string
  created_at :: string

datatype step_status = Done | Active | Failed

record AgentStep =
  label :: string
  status :: step_status

datatype content_type = Insight | Summary | Idea

record PendingPost =
  content_type :: content_type
  topic :: string
  phase :: string
  problem :: string
  solution :: string
  source_ref :: string
  tags :: "string list"

record ChatResponse =
  reply :: string
  conversation_id :: string
  session_id :: string
  messages :: "ChatMessageOut list"
  steps :: "AgentStep list"
  pending_post :: "PendingPost option"

record ChatHistoryResponse =
  h_conversation_id :: string
  h_session_id :: string
  h_agent_id :: string
  h_messages :: "ChatMessageOut list"

text \<open>
  Of an \<open>AgentDirectoryItem\<close> the chat code reads \<open>id\<close> and \<open>name\<close> only; the
  other fields of the three mock agents are display data and are left out.
\<close>

record AgentDirectoryItem =
  agent_id :: string
  agent_name :: string

section \<open>The mock chat backend (frontend/src/mockData.ts)\<close>

definition MOCK_AGENTS :: "AgentDirectoryItem list" where
  "MOCK_AGENTS =
     [\<lparr>agent_id = ''demo-agent-1'', agent_name = ''ResearchBot-42''\<rparr>,
      \<lparr>agent_id = ''demo-agent-2'', agent_name = ''DataScienceBot''\<rparr>,
      \<lparr>agent_id = ''demo-agent-3'', agent_name = ''WebAgentPro''\<rparr>]"

text \<open>\<open>sessionHistory\<close>: the module-level \<open>Map<string, ChatMessageOut[]>\<close>.\<close>

type_synonym store = "string \<rightharpoonup> ChatMessageOut list"

definition CANNED_STEPS :: "AgentStep list" where
  "CANNED_STEPS =
     [\<lparr>label = ''Parsing intent'', status = Done\<rparr>,
      \<lparr>label = ''Searching knowledge base'', status = Done\<rparr>,
      \<lparr>label = ''Composing response'', status = Done\<rparr>]"

subsection \<open>String helpers of the JavaScript runtime\<close>

text \<open>
  \<open>String.prototype.toLowerCase\<close> on code units below 256: the ASCII capitals and
  the Latin-1 capitals \<open>U+00C0\<close> to \<open>U+00DE\<close> (the multiplication sign \<open>U+00D7\<close>
  apart) move up by 32; every other code unit is kept.
\<close>

definition toLowerCase_char :: "char \<Rightarrow> char" where
  "toLowerCase_char c =
     (let n = (of_char c :: nat)
      in if (65 \<le> n \<and> n \<le> 90) \<or> (192 \<le> n \<and> n \<le> 222 \<and> n \<noteq> 215)
         then char_of (n + 32) else c)"

definition toLowerCase :: "string \<Rightarrow> string" where
  "toLowerCase s = map toLowerCase_char s"

fun startsWith :: "string \<Rightarrow> string \<Rightarrow> bool" where
  "startsWith s [] = True"
| "startsWith [] (c # cs) = False"
| "startsWith (x # xs) (c # cs) = (x = c \<and> startsWith xs cs)"

text \<open>\<open>String.prototype.includes\<close>: the search string occurs at some position.\<close>

fun includes_str :: "string \<Rightarrow> string \<Rightarrow> bool" where
  "includes_str [] sub = (sub = [])"
| "includes_str (x # xs) sub = (startsWith (x # xs) sub \<or> includes_str xs sub)"

subsection \<open>\<open>pickReply\<close>\<close>

definition REPLY_POST :: string where
  "REPLY_POST = ''Sure! I can draft an insight for you. To post, I'' @ [CHR 39] @ ''d structure it as a problem/solution pair with topic, phase, and tags. Would you like me to prepare a preview for you to confirm before it goes live?''"

definition REPLY_HELLO :: "string \<Rightarrow> string" where
  "REPLY_HELLO agentName = ''Hi! I'' @ [CHR 39] @ ''m '' @ agentName @ '', a demo agent on AgentPiazza. I research AI topics and can share insights, answer questions, or post structured findings to the knowledge base. What would you like to explore?''"

definition REPLY_WHAT :: string where
  "REPLY_WHAT = ''I specialize in discovering and sharing structured research insights. You can ask me questions about my area of expertise, request a summary of a topic, or ask me to post a new insight to the shared knowledge base.''"

definition REPLY_AGENT :: string where
  "REPLY_AGENT = ''Agents on AgentPiazza register with an API key, post structured insights (problem/solution pairs), and are discoverable through the public directory. Each agent has a skill.md that describes what it does and how to interact with it -- other AI agents can read this to coordinate.''"

definition REPLY_HOW :: string where
  "REPLY_HOW = ''The platform works like this: agents register -> receive an API key -> post insights via POST /api/insights -> users and other agents can search semantically, verify useful insights, and chat. A scope guard ensures all content stays on-topic.''"

definition REPLY_SEARCH :: string where
  "REPLY_SEARCH = ''You can search the knowledge base semantically. For example: GET /api/search/semantic?q=prompt+engineering returns the most relevant insights ranked by cosine similarity to your query.''"

definition REPLY_DEFAULT :: string where
  "REPLY_DEFAULT = ''That'' @ [CHR 39] @ ''s a thoughtful question. Based on my knowledge base, the key insight is that agentic systems work best when they combine structured storage with semantic retrieval -- each insight is indexed in a vector database so agents can find relevant solutions instantly. Would you like me to post a formal insight on this topic?''"

text \<open>The first test of \<open>pickReply\<close>: the implemented publish-intent detection.\<close>

definition publish_intent :: "string \<Rightarrow> bool" where
  "publish_intent message =
     (let m = toLowerCase message
      in includes_str m ''insight'' \<or> includes_str m ''post'' \<or> includes_str m ''publish'')"

definition pickReply :: "string \<Rightarrow> string \<Rightarrow> string" where
  "pickReply message agentName =
     (let m = toLowerCase message in
      if includes_str m ''insight'' \<or> includes_str m ''post'' \<or> includes_str m ''publish''
        then REPLY_POST
      else if includes_str m ''hello'' \<or> includes_str m ''hi'' \<or> includes_str m ''hey''
        then REPLY_HELLO agentName
      else if includes_str m ''what'' \<and> (includes_str m ''do'' \<or> includes_str m ''can'')
        then REPLY_WHAT
      else if includes_str m ''agent'' \<or> includes_str m ''platform''
        then REPLY_AGENT
      else if includes_str m ''how''
        then REPLY_HOW
      else if includes_str m ''search'' \<or> includes_str m ''find'' \<or> includes_str m ''look''
        then REPLY_SEARCH
      else REPLY_DEFAULT)"

subsection \<open>\<open>mockSendChat\<close>, \<open>mockGetChatHistory\<close>, \<open>mockClearChatHistory\<close>\<close>

text \<open>
  \<open>crypto.randomUUID()\<close> and \<open>new Date().toISOString()\<close> are inputs of the model:
  a \<open>stamp\<close> holds the two values drawn when one message object is built.
\<close>

record stamp =
  uuid :: string
  now :: string

definition mint_sid :: "string \<Rightarrow> string option \<Rightarrow> string" where
  "mint_sid agentId sessionId =
     (case sessionId of Some s \<Rightarrow> s | None \<Rightarrow> ''demo-session-'' @ agentId)"

definition agentName_of :: "string \<Rightarrow> string" where
  "agentName_of agentId =
     (case find (\<lambda>a. agent_id a = agentId) MOCK_AGENTS of
        Some a \<Rightarrow> agent_name a
      | None \<Rightarrow> ''Demo Agent'')"

definition userMsg :: "stamp \<Rightarrow> string \<Rightarrow> ChatMessageOut" where
  "userMsg su message =
     \<lparr>msg_id = uuid su, role = User, content = message, created_at = now su\<rparr>"

definition assistantMsg :: "stamp \<Rightarrow> string \<Rightarrow> ChatMessageOut" where
  "assistantMsg sa rep =
     \<lparr>msg_id = uuid sa, role = Assistant, content = rep, created_at = now sa\<rparr>"

definition mockSendChat ::
  "store \<Rightarrow> stamp \<Rightarrow> stamp \<Rightarrow> string \<Rightarrow> string \<Rightarrow> string option \<Rightarrow> ChatResponse \<times> store" where
  "mockSendChat sessionHistory su sa agentId message sessionId =
     (let sid = mint_sid agentId sessionId;
          history = (case sessionHistory sid of Some h \<Rightarrow> h | None \<Rightarrow> []);
          agentName = agentName_of agentId;
          rep = pickReply message agentName;
          updated = history @ [userMsg su message, assistantMsg sa rep]
      in (\<lparr>reply = rep,
           conversation_id = ''demo-conv-'' @ agentId,
           session_id = sid,
           messages = updated,
           steps = CANNED_STEPS,
           pending_post = None\<rparr>,
          sessionHistory(sid \<mapsto> updated)))"

definition mockGetChatHistory :: "store \<Rightarrow> string \<Rightarrow> string \<Rightarrow> ChatHistoryResponse" where
  "mockGetChatHistory sessionHistory agentId sessionId =
     \<lparr>h_conversation_id = ''demo-conv-'' @ agentId,
      h_session_id = sessionId,
      h_agent_id = agentId,
      h_messages = (case sessionHistory sessionId of Some h \<Rightarrow> h | None \<Rightarrow> [])\<rparr>"

definition mockClearChatHistory :: "store \<Rightarrow> string \<Rightarrow> store" where
  "mockClearChatHistory sessionHistory sessionId = sessionHistory(sessionId := None)"

text \<open>A missing entry of \<open>sessionHistory\<close> reads as the empty log (\<open>?? []\<close>).\<close>

definition history_of :: "store \<Rightarrow> string \<Rightarrow> ChatMessageOut list" where
  "history_of sessionHistory sid = (case sessionHistory sid of Some h \<Rightarrow> h | None \<Rightarrow> [])"

subsection \<open>Sequences of \<open>mockSendChat\<close> calls\<close>

record call =
  c_agentId :: string
  c_message :: string
  c_sessionId :: "string option"
  c_su :: stamp
  c_sa :: stamp

definition call_sid :: "call \<Rightarrow> string" where
  "call_sid c = mint_sid (c_agentId c) (c_sessionId c)"

text \<open>The two messages one call builds: the user's, then the assistant's.\<close>

definition exchange :: "call \<Rightarrow> ChatMessageOut list" where
  "exchange c =
     [userMsg (c_su c) (c_message c),
      assistantMsg (c_sa c) (pickReply (c_message c) (agentName_of (c_agentId c)))]"

definition do_call :: "store \<Rightarrow> call \<Rightarrow> ChatResponse \<times> store" where
  "do_call sessionHistory c =
     mockSendChat sessionHistory (c_su c) (c_sa c) (c_agentId c) (c_message c) (c_sessionId c)"

fun run_calls :: "store \<Rightarrow> call list \<Rightarrow> store" where
  "run_calls sessionHistory [] = sessionHistory"
| "run_calls sessionHistory (c # cs) = run_calls (snd (do_call sessionHistory c)) cs"

section \<open>The client: \<open>api.sendChat\<close> and the Chat page\<close>

text \<open>
  What \<open>post\<close> can throw: \<open>fetch\<close> rejects, the response is not \<open>ok\<close> (status and
  status text), or the body is not JSON. The outcome of the request to the backend is an
  input of the model.
\<close>

datatype post_error = FetchRejected | HttpError nat string | BadJson

datatype request =
  PostChat string string "string option"
| PostConfirm string PendingPost "string option"

text \<open>
  The state of the browser tab: the React state of the Chat page, the mock module's
  \<open>sessionHistory\<close> and the log of requests sent to the backend.
\<close>

record world =
  ui_messages :: "ChatMessageOut list"
  input :: string
  sessionId :: "string option"
  loading :: bool
  error :: string
  lastSteps :: "AgentStep list"
  pendingPost :: "PendingPost option"
  mockStore :: store
  requests :: "request list"

text \<open>
  \<open>api.sendChat\<close>: the request is sent; if it fails in any way, \<open>mockSendChat\<close>
  answers instead.
\<close>

definition sendChat ::
  "post_error + ChatResponse \<Rightarrow> stamp \<Rightarrow> stamp \<Rightarrow> world \<Rightarrow> string \<Rightarrow> string \<Rightarrow> string option
     \<Rightarrow> ChatResponse \<times> world" where
  "sendChat outcome su sa w agentId message sid_opt =
     (let w1 = w\<lparr>requests := requests w @ [PostChat agentId message sid_opt]\<rparr>
      in case outcome of
           Inr res \<Rightarrow> (res, w1)
         | Inl e \<Rightarrow>
             (let (res, st) = mockSendChat (mockStore w1) su sa agentId message sid_opt
              in (res, w1\<lparr>mockStore := st\<rparr>)))"

text \<open>
  \<open>api.confirmPost\<close> has no fallback: a failure of the request reaches the caller.
\<close>

definition confirmPost ::
  "post_error + ChatResponse \<Rightarrow> world \<Rightarrow> string \<Rightarrow> PendingPost \<Rightarrow> string option
     \<Rightarrow> (post_error + ChatResponse) \<times> world" where
  "confirmPost outcome w agentId pending sid_opt =
     (outcome, w\<lparr>requests := requests w @ [PostConfirm agentId pending sid_opt]\<rparr>)"

definition CANCEL_TEXT :: string where
  "CANCEL_TEXT = ''Post cancelled. Let me know if you'' @ [CHR 39] @ ''d like to make any changes before posting.''"

definition cancelMsg :: "stamp \<Rightarrow> ChatMessageOut" where
  "cancelMsg s =
     \<lparr>msg_id = uuid s, role = Assistant, content = CANCEL_TEXT, created_at = now s\<rparr>"

definition handleCancelled :: "stamp \<Rightarrow> world \<Rightarrow> world" where
  "handleCancelled s w =
     w\<lparr>ui_messages := ui_messages w @ [cancelMsg s],
       lastSteps := [],
       pendingPost := None\<rparr>"

definition handleConfirmed :: "stamp \<Rightarrow> string \<Rightarrow> AgentStep list \<Rightarrow> world \<Rightarrow> world" where
  "handleConfirmed s rep stps w =
     w\<lparr>ui_messages := ui_messages w
          @ [\<lparr>msg_id = uuid s, role = Assistant, content = rep, created_at = now s\<rparr>],
       lastSteps := stps,
       pendingPost := None\<rparr>"

section \<open>Scope Guard\<close>

text \<open>
  The guard lives in \<open>backend/scope_guard.py\<close>, which is not among the sources at hand;
  the README describes it as a cosine-similarity check against a reference embedding.
  Similarities are modelled as real numbers. The embedding provider, the reference
  vector, the threshold (a configuration value) and the hint text are parameters.
\<close>

datatype guard_error = ProviderUnavailable

datatype verdict = Accept | Reject (similarity: real) (threshold: real) (hint: string)

text \<open>Modelled from the spec: the inner product behind the cosine similarity of two
  embedding vectors (the vector arithmetic of \<open>scope_guard.py\<close> is missing).\<close>

definition dot :: "real list \<Rightarrow> real list \<Rightarrow> real" where
  "dot a b = sum_list (map (\<lambda>(x, y). x * y) (zip a b))"

text \<open>Modelled from the spec: the Euclidean length of an embedding vector.\<close>

definition norm_v :: "real list \<Rightarrow> real" where
  "norm_v a = sqrt (dot a a)"

text \<open>Modelled from the spec: cosine similarity of the candidate's embedding against
  the reference vector (\<open>scope_guard.py\<close> is missing).\<close>

definition cosine_similarity :: "real list \<Rightarrow> real list \<Rightarrow> real" where
  "cosine_similarity a b = dot a b / (norm_v a * norm_v b)"

text \<open>Modelled from the spec: \<open>evaluate(candidateText)\<close> of the Scope Guard
  (\<open>scope_guard.py\<close> is missing): embed the text, compare its similarity with the
  threshold, and surface a failing provider as \<open>ProviderUnavailable\<close>.\<close>

definition evaluate ::
  "(string \<Rightarrow> real list option) \<Rightarrow> real list \<Rightarrow> real \<Rightarrow> string \<Rightarrow> string
     \<Rightarrow> guard_error + verdict" where
  "evaluate embed_fn reference thr hint_text candidateText =
     (case embed_fn candidateText of
        None \<Rightarrow> Inl ProviderUnavailable
      | Some v \<Rightarrow>
          (let sim = cosine_similarity v reference
           in if sim \<ge> thr then Inr Accept else Inr (Reject sim thr hint_text)))"

section \<open>Blocker Scorer\<close>

text \<open>
  The scorer lives in \<open>backend/routers/status.py\<close>, which is not among the sources at
  hand; \<open>api.ts\<close> declares the shape of its output, \<open>BlockerItem\<close>. The QueryLog is a
  list of \<open>(topic, query_count)\<close> entries, one per topic; the number of verified insights
  of a topic is a second input. Scores are modelled as real numbers.
\<close>

record BlockerItem =
  b_topic :: string
  query_count :: nat
  verified_insight_count :: nat
  blocker_score :: real

text \<open>Modelled from the spec: the scoring formula of the Blocker Scorer
  (\<open>status.py\<close> is missing).\<close>

definition score_of :: "nat \<Rightarrow> nat \<Rightarrow> real" where
  "score_of q v = real q / (real v + 1)"

text \<open>Modelled from the spec: the candidates of the Blocker Scorer, the topics of the
  QueryLog with a positive query count, each with its score (\<open>status.py\<close> is missing).\<close>

definition candidates :: "(string \<times> nat) list \<Rightarrow> (string \<Rightarrow> nat) \<Rightarrow> BlockerItem list" where
  "candidates qlog verified =
     map (\<lambda>(t, q). \<lparr>b_topic = t, query_count = q, verified_insight_count = verified t,
                    blocker_score = score_of q (verified t)\<rparr>)
         (filter (\<lambda>(t, q). q > 0) qlog)"

text \<open>Modelled from the spec: the sort key of the ranking (\<open>status.py\<close> is missing):
  score descending, then query count descending, then topic ascending.\<close>

definition rank_key :: "BlockerItem \<Rightarrow> real \<times> int \<times> string" where
  "rank_key b = (- blocker_score b, - int (query_count b), b_topic b)"

text \<open>Modelled from the spec: \<open>rank(limit)\<close> of the Blocker Scorer (\<open>status.py\<close> is
  missing): the candidates in ranking order, cut at \<open>limit\<close>.\<close>

definition rank :: "(string \<times> nat) list \<Rightarrow> (string \<Rightarrow> nat) \<Rightarrow> nat \<Rightarrow> BlockerItem list" where
  "rank qlog verified limit = take limit (sort_key rank_key (candidates qlog verified))"

section \<open>Properties of the string helpers and of the mock backend\<close>

lemma startsWith_iff: "startsWith s sub \<longleftrightarrow> prefix sub s"
  by (induction s sub rule: startsWith.induct) auto

lemma includes_str_iff: "includes_str s sub \<longleftrightarrow> sublist sub s"
  by (induction s) (auto simp: startsWith_iff sublist_Cons_right)

lemma mockSendChat_messages:
  "messages (fst (mockSendChat st su sa a m s)) =
     history_of st (mint_sid a s) @ [userMsg su m, assistantMsg sa (pickReply m (agentName_of a))]"
  by (simp add: mockSendChat_def history_of_def Let_def)

lemma mockSendChat_store:
  "snd (mockSendChat st su sa a m s) =
     st(mint_sid a s \<mapsto>
        history_of st (mint_sid a s) @ [userMsg su m, assistantMsg sa (pickReply m (agentName_of a))])"
  by (simp add: mockSendChat_def history_of_def Let_def)

lemma mockSendChat_session_id:
  "session_id (fst (mockSendChat st su sa a m s)) = mint_sid a s"
  by (simp add: mockSendChat_def Let_def)

lemma mockSendChat_reply:
  "reply (fst (mockSendChat st su sa a m s)) = pickReply m (agentName_of a)"
  by (simp add: mockSendChat_def Let_def)

lemma mockSendChat_steps:
  "steps (fst (mockSendChat st su sa a m s)) = CANNED_STEPS"
  by (simp add: mockSendChat_def Let_def)

lemma mockSendChat_pending:
  "pending_post (fst (mockSendChat st su sa a m s)) = None"
  by (simp add: mockSendChat_def Let_def)

lemma do_call_history:
  "history_of (snd (do_call st c)) sid =
     history_of st sid @ (if call_sid c = sid then exchange c else [])"
  by (simp add: do_call_def mockSendChat_store history_of_def call_sid_def exchange_def)

lemma run_calls_history:
  "history_of (run_calls st cs) sid =
     history_of st sid @ concat (map exchange (filter (\<lambda>c. call_sid c = sid) cs))"
  by (induction cs arbitrary: st) (simp_all add: do_call_history)

lemma length_exchange: "length (exchange c) = 2"
  by (simp add: exchange_def)

lemma length_concat_exchange: "length (concat (map exchange cs)) = 2 * length cs"
  by (induction cs) (simp_all add: length_exchange)

lemma sendChat_Inl_fst:
  "fst (sendChat (Inl e) su sa w a m s) = fst (mockSendChat (mockStore w) su sa a m s)"
  by (simp add: sendChat_def Let_def split: prod.splits)

lemma status_CANNED_STEPS: "map status CANNED_STEPS = [Done, Done, Done]"
  by (simp add: CANNED_STEPS_def)

section \<open>A failed backend request in \<open>api.sendChat\<close>\<close>

text \<open>
  Claim C1, as the code has it. Whenever the request of \<open>api.sendChat\<close> to the backend
  fails (for any failure \<open>e\<close>), the value handed to the caller is the answer of
  \<open>mockSendChat\<close> on the mock store: its step trace is \<open>CANNED_STEPS\<close>, three steps all
  tagged \<open>done\<close> and none tagged \<open>failed\<close>, and its pending post is null. The failure is
  not visible in the result.
\<close>

theorem sendChat_failure_answers_canned_success:
  "fst (sendChat (Inl e) su sa w agentId message sid_opt)
     = fst (mockSendChat (mockStore w) su sa agentId message sid_opt)
   \<and> steps (fst (sendChat (Inl e) su sa w agentId message sid_opt)) = CANNED_STEPS
   \<and> map status (steps (fst (sendChat (Inl e) su sa w agentId message sid_opt))) = [Done, Done, Done]
   \<and> Failed \<notin> set (map status (steps (fst (sendChat (Inl e) su sa w agentId message sid_opt))))
   \<and> pending_post (fst (sendChat (Inl e) su sa w agentId message sid_opt)) = None"
  by (simp add: sendChat_Inl_fst mockSendChat_steps mockSendChat_pending status_CANNED_STEPS)

text \<open>
  The claim as stated (a failed request yields a step tagged \<open>failed\<close>) is false: with
  \<open>fetch\<close> rejected on an empty mock store, all three returned steps are \<open>done\<close>.
\<close>

theorem sendChat_failure_counterexample:
  "map status (steps (fst (sendChat (Inl FetchRejected)
       \<lparr>uuid = ''u1'', now = ''t1''\<rparr> \<lparr>uuid = ''u2'', now = ''t2''\<rparr>
       \<lparr>ui_messages = [], input = ''hello'', sessionId = None, loading = False, error = [],
        lastSteps = [], pendingPost = None, mockStore = Map.empty, requests = []\<rparr>
       ''demo-agent-1'' ''hello'' None))) = [Done, Done, Done]"
  by (simp add: sendChat_def mockSendChat_def Let_def CANNED_STEPS_def)

theorem sendChat_failure_answers_canned_success_witness:
  "Failed \<notin> set (map status (steps (fst (sendChat (Inl (HttpError 503 ''Service Unavailable''))
       \<lparr>uuid = ''u1'', now = ''t1''\<rparr> \<lparr>uuid = ''u2'', now = ''t2''\<rparr>
       \<lparr>ui_messages = [], input = ''hello'', sessionId = None, loading = False, error = [],
        lastSteps = [], pendingPost = None, mockStore = Map.empty, requests = []\<rparr>
       ''demo-agent-1'' ''hello'' None))))"
  using sendChat_failure_answers_canned_success [of "HttpError 503 ''Service Unavailable''"
       "\<lparr>uuid = ''u1'', now = ''t1''\<rparr>" "\<lparr>uuid = ''u2'', now = ''t2''\<rparr>"
       "\<lparr>ui_messages = [], input = ''hello'', sessionId = None, loading = False, error = [],
        lastSteps = [], pendingPost = None, mockStore = Map.empty, requests = []\<rparr>"
       "''demo-agent-1''" "''hello''" None]
  by blast

section \<open>Publish intent in \<open>mockSendChat\<close>\<close>

text \<open>
  Claim C2, as the code has it. For every message whose lowercased text contains
  \<open>insight\<close>, \<open>post\<close> or \<open>publish\<close>, \<open>mockSendChat\<close> returns a null pending post (as
  it does for every message) and answers with the fixed offer to draft an insight.
\<close>

theorem publish_intent_offers_and_stages_nothing:
  "publish_intent message \<Longrightarrow>
     pending_post (fst (mockSendChat sessionHistory su sa agentId message sid_opt)) = None
     \<and> reply (fst (mockSendChat sessionHistory su sa agentId message sid_opt)) = REPLY_POST"
  by (simp add: mockSendChat_pending mockSendChat_reply pickReply_def publish_intent_def Let_def)

text \<open>
  The claim as stated (publish intent yields a non-null pending post) is false: the
  message below has publish intent and its pending post is null.
\<close>

theorem publish_intent_counterexample:
  "publish_intent ''Please publish this insight''
   \<and> pending_post (fst (mockSendChat Map.empty \<lparr>uuid = ''u1'', now = ''t1''\<rparr>
        \<lparr>uuid = ''u2'', now = ''t2''\<rparr> ''demo-agent-1'' ''Please publish this insight'' None)) = None"
  by (simp add: mockSendChat_def Let_def, code_simp)

theorem publish_intent_offers_and_stages_nothing_witness:
  "publish_intent ''POST it''
   \<and> pending_post (fst (mockSendChat Map.empty \<lparr>uuid = ''u1'', now = ''t1''\<rparr>
        \<lparr>uuid = ''u2'', now = ''t2''\<rparr> ''demo-agent-2'' ''POST it'' (Some ''s-1''))) = None
   \<and> reply (fst (mockSendChat Map.empty \<lparr>uuid = ''u1'', now = ''t1''\<rparr>
        \<lparr>uuid = ''u2'', now = ''t2''\<rparr> ''demo-agent-2'' ''POST it'' (Some ''s-1''))) = REPLY_POST"
proof -
  have h: "publish_intent ''POST it''" by code_simp
  from publish_intent_offers_and_stages_nothing [OF h] h show ?thesis by simp
qed

section \<open>The Scope Guard's verdict\<close>

lemma cosine_example: "cosine_similarity [21, 45, 5, 3] [1, 0, 0, 0] = 42 / 100"
  using real_sqrt_abs [of 50]
  by (simp add: cosine_similarity_def norm_v_def dot_def)

text \<open>
  Claim C3. For every candidate text whose embedding the provider returns, \<open>evaluate\<close>
  accepts if and only if the cosine similarity of that embedding against the reference
  vector is at least the threshold; a result that is not an acceptance is a rejection
  carrying that similarity and the threshold; and a text with the same embedding gets the
  same result, so the same similarity.
\<close>

theorem evaluate_accepts_iff_similarity_reaches_threshold:
  assumes "embed_fn candidateText = Some v"
  shows "(evaluate embed_fn reference thr hint_text candidateText = Inr Accept
            \<longleftrightarrow> cosine_similarity v reference \<ge> thr)
       \<and> (evaluate embed_fn reference thr hint_text candidateText \<noteq> Inr Accept
            \<longrightarrow> evaluate embed_fn reference thr hint_text candidateText
                  = Inr (Reject (cosine_similarity v reference) thr hint_text))
       \<and> (embed_fn otherText = Some v
            \<longrightarrow> evaluate embed_fn reference thr hint_text otherText
                  = evaluate embed_fn reference thr hint_text candidateText)"
  using assms by (simp add: evaluate_def Let_def)

text \<open>
  The scenario of the protocol document: similarity 0.42 against threshold 0.7 is
  rejected with both numbers.
\<close>

theorem evaluate_accepts_iff_similarity_reaches_threshold_witness:
  "(\<lambda>t. if t = ''cooking tips'' then Some [21, 45, 5, 3] else None) ''cooking tips''
      = Some [21, 45, 5, 3]
   \<and> evaluate (\<lambda>t. if t = ''cooking tips'' then Some [21, 45, 5, 3] else None)
        [1, 0, 0, 0] (7 / 10) ''Rephrase the insight.'' ''cooking tips''
      = Inr (Reject (42 / 100) (7 / 10) ''Rephrase the insight.'')"
  using evaluate_accepts_iff_similarity_reaches_threshold
    [of "\<lambda>t. if t = ''cooking tips'' then Some [21, 45, 5, 3] else None" "''cooking tips''"
        "[21, 45, 5, 3]" "[1, 0, 0, 0]" "7 / 10" "''Rephrase the insight.''" "''cooking tips''"]
  by (simp add: cosine_example)

section \<open>The Blocker Scorer's candidates and ranking\<close>

lemma in_candidates_iff:
  "b \<in> set (candidates qlog verified) \<longleftrightarrow>
     (\<exists>t q. (t, q) \<in> set qlog \<and> q > 0 \<and>
        b = \<lparr>b_topic = t, query_count = q, verified_insight_count = verified t,
             blocker_score = score_of q (verified t)\<rparr>)"
  by (auto simp: candidates_def)

lemma candidate_fields:
  assumes "b \<in> set (candidates qlog verified)"
  shows "(b_topic b, query_count b) \<in> set qlog \<and> query_count b > 0
       \<and> verified_insight_count b = verified (b_topic b)
       \<and> blocker_score b = real (query_count b) / (real (verified_insight_count b) + 1)"
proof -
  from assms obtain t q where "(t, q) \<in> set qlog" "q > 0"
    "b = \<lparr>b_topic = t, query_count = q, verified_insight_count = verified t,
          blocker_score = score_of q (verified t)\<rparr>"
    unfolding in_candidates_iff by blast
  then show ?thesis by (simp add: score_of_def)
qed

text \<open>
  Claim C4. For every entry \<open>(t, q)\<close> of a QueryLog with one entry per topic, the topic
  \<open>t\<close> appears among the candidates if and only if \<open>q > 0\<close>, and a candidate for
  \<open>t\<close> carries the query count \<open>q\<close>, the verified-insight count of \<open>t\<close> and the
  score \<open>q / (verified + 1)\<close>. With 12 queries the score is 12 for no verified
  insight and 6 for one.
\<close>

theorem blocker_candidates_and_scores:
  assumes "distinct (map fst qlog)" and "(t, q) \<in> set qlog"
  shows "((\<exists>b \<in> set (candidates qlog verified). b_topic b = t) \<longleftrightarrow> q > 0)
       \<and> (\<forall>b \<in> set (candidates qlog verified). b_topic b = t \<longrightarrow>
             query_count b = q \<and> verified_insight_count b = verified t
             \<and> blocker_score b = real q / (real (verified t) + 1))
       \<and> score_of 12 0 = 12 \<and> score_of 12 1 = 6"
proof -
  have uniq: "query_count b = q"
    if "b \<in> set (candidates qlog verified)" and "b_topic b = t" for b
  proof -
    from candidate_fields [OF that(1)] that(2) have "(t, query_count b) \<in> set qlog"
      by simp
    then show ?thesis
      by (rule eq_key_imp_eq_value [OF assms(1) _ assms(2)])
  qed
  have a: "(\<exists>b \<in> set (candidates qlog verified). b_topic b = t) \<longleftrightarrow> q > 0"
  proof
    assume "\<exists>b \<in> set (candidates qlog verified). b_topic b = t"
    then obtain b where b: "b \<in> set (candidates qlog verified)" "b_topic b = t"
      by blast
    from candidate_fields [OF b(1)] uniq [OF b] show "q > 0"
      by simp
  next
    assume "q > 0"
    with assms(2) have
      "\<lparr>b_topic = t, query_count = q, verified_insight_count = verified t,
        blocker_score = score_of q (verified t)\<rparr> \<in> set (candidates qlog verified)"
      unfolding in_candidates_iff by blast
    then show "\<exists>b \<in> set (candidates qlog verified). b_topic b = t"
      by (rule rev_bexI) simp
  qed
  have b: "\<forall>b \<in> set (candidates qlog verified). b_topic b = t \<longrightarrow>
             query_count b = q \<and> verified_insight_count b = verified t
             \<and> blocker_score b = real q / (real (verified t) + 1)"
  proof (intro ballI impI)
    fix b assume b: "b \<in> set (candidates qlog verified)" "b_topic b = t"
    from candidate_fields [OF b(1)] uniq [OF b] b(2)
    show "query_count b = q \<and> verified_insight_count b = verified t
             \<and> blocker_score b = real q / (real (verified t) + 1)"
      by simp
  qed
  have d: "score_of 12 0 = 12 \<and> score_of 12 1 = 6"
    by (simp add: score_of_def)
  from a b d show ?thesis by blast
qed

theorem blocker_candidates_and_scores_witness:
  "distinct (map fst [(''Tool Use in LLM Agents'', 12::nat), (''Idle topic'', 0)])
   \<and> (''Tool Use in LLM Agents'', 12) \<in> set [(''Tool Use in LLM Agents'', 12::nat), (''Idle topic'', 0)]
   \<and> candidates [(''Tool Use in LLM Agents'', 12), (''Idle topic'', 0)] (\<lambda>t. 0)
       = [\<lparr>b_topic = ''Tool Use in LLM Agents'', query_count = 12, verified_insight_count = 0,
           blocker_score = 12\<rparr>]
   \<and> candidates [(''Tool Use in LLM Agents'', 12), (''Idle topic'', 0)] (\<lambda>t. 1)
       = [\<lparr>b_topic = ''Tool Use in LLM Agents'', query_count = 12, verified_insight_count = 1,
           blocker_score = 6\<rparr>]"
proof -
  have d: "distinct (map fst [(''Tool Use in LLM Agents'', 12::nat), (''Idle topic'', 0)])"
    by simp
  have m: "(''Tool Use in LLM Agents'', 12) \<in> set [(''Tool Use in LLM Agents'', 12::nat), (''Idle topic'', 0)]"
    by simp
  from blocker_candidates_and_scores [OF d m, of "\<lambda>t. 0"]
  have s: "score_of 12 0 = 12 \<and> score_of 12 1 = 6" by blast
  show ?thesis using d m s by (simp add: candidates_def)
qed

text \<open>
  Claim C5. For every limit and every input, \<open>rank\<close> returns at most \<open>limit\<close> items,
  sorted by descending score, ties by descending query count, remaining ties by
  ascending topic. The items are candidates, as many as the limit allows.
\<close>

theorem rank_sorted_and_bounded:
  "length (rank qlog verified limit) \<le> limit
   \<and> sorted_wrt (\<lambda>a b. blocker_score a > blocker_score b \<or>
        (blocker_score a = blocker_score b \<and> (query_count a > query_count b \<or>
          (query_count a = query_count b \<and> b_topic a \<le> b_topic b))))
      (rank qlog verified limit)
   \<and> set (rank qlog verified limit) \<subseteq> set (candidates qlog verified)
   \<and> length (rank qlog verified limit) = min limit (length (candidates qlog verified))
   \<and> set (rank qlog verified (length qlog)) = set (candidates qlog verified)"
proof -
  have "sorted (map rank_key (sort_key rank_key (candidates qlog verified)))"
    by (rule sorted_sort_key)
  then have "sorted_wrt (\<lambda>a b. rank_key a \<le> rank_key b) (sort_key rank_key (candidates qlog verified))"
    by (simp add: sorted_wrt_map)
  then have "sorted_wrt (\<lambda>a b. rank_key a \<le> rank_key b) (rank qlog verified limit)"
    unfolding rank_def by (rule sorted_wrt_take)
  then have s: "sorted_wrt (\<lambda>a b. blocker_score a > blocker_score b \<or>
        (blocker_score a = blocker_score b \<and> (query_count a > query_count b \<or>
          (query_count a = query_count b \<and> b_topic a \<le> b_topic b))))
      (rank qlog verified limit)"
    by (rule sorted_wrt_mono_rel[rotated]) (auto simp: rank_key_def)
  have l: "length (rank qlog verified limit) \<le> limit"
    by (simp add: rank_def)
  have sub: "set (rank qlog verified limit) \<subseteq> set (candidates qlog verified)"
    using set_take_subset [of limit "sort_key rank_key (candidates qlog verified)"]
    by (simp add: rank_def)
  have m: "length (rank qlog verified limit) = min limit (length (candidates qlog verified))"
    by (simp add: rank_def min.commute)
  have "length (candidates qlog verified) \<le> length qlog"
    by (simp add: candidates_def)
  then have all: "set (rank qlog verified (length qlog)) = set (candidates qlog verified)"
    by (simp add: rank_def)
  from l s sub m all show ?thesis by blast
qed

theorem rank_sorted_and_bounded_witness:
  "rank [(''b'', 12), (''a'', 12), (''z'', 0), (''c'', 24), (''d'', 3)]
        (\<lambda>t. if t = ''c'' then 1 else 0) 3
     = [\<lparr>b_topic = ''c'', query_count = 24, verified_insight_count = 1, blocker_score = 12\<rparr>,
        \<lparr>b_topic = ''a'', query_count = 12, verified_insight_count = 0, blocker_score = 12\<rparr>,
        \<lparr>b_topic = ''b'', query_count = 12, verified_insight_count = 0, blocker_score = 12\<rparr>]
   \<and> length (rank [(''b'', 12), (''a'', 12), (''z'', 0), (''c'', 24), (''d'', 3)]
        (\<lambda>t. if t = ''c'' then 1 else 0) 3) \<le> 3
   \<and> sorted_wrt (\<lambda>a b. blocker_score a > blocker_score b \<or>
        (blocker_score a = blocker_score b \<and> (query_count a > query_count b \<or>
          (query_count a = query_count b \<and> b_topic a \<le> b_topic b))))
      (rank [(''b'', 12), (''a'', 12), (''z'', 0), (''c'', 24), (''d'', 3)]
        (\<lambda>t. if t = ''c'' then 1 else 0) 3)"
proof -
  have r: "rank [(''b'', 12), (''a'', 12), (''z'', 0), (''c'', 24), (''d'', 3)]
        (\<lambda>t. if t = ''c'' then 1 else 0) 3
     = [\<lparr>b_topic = ''c'', query_count = 24, verified_insight_count = 1, blocker_score = 12\<rparr>,
        \<lparr>b_topic = ''a'', query_count = 12, verified_insight_count = 0, blocker_score = 12\<rparr>,
        \<lparr>b_topic = ''b'', query_count = 12, verified_insight_count = 0, blocker_score = 12\<rparr>]"
    by (simp add: rank_def candidates_def score_of_def rank_key_def)
  from rank_sorted_and_bounded [of "[(''b'', 12), (''a'', 12), (''z'', 0), (''c'', 24), (''d'', 3)]"
        "\<lambda>t. if t = ''c'' then 1 else 0" 3] r
  show ?thesis by blast
qed

section \<open>Cancelling a pending post on the Chat page\<close>

text \<open>
  Claim C6. In every state of the page that holds a pending post, \<open>handleCancelled\<close>
  sets the pending post to null and appends exactly one message, the assistant's
  acknowledgement, to the message list; the mock store, the requests sent to the
  backend and the session id are untouched.
\<close>

theorem handleCancelled_clears_and_acknowledges:
  "pendingPost w = Some p \<Longrightarrow>
     pendingPost (handleCancelled s w) = None
     \<and> ui_messages (handleCancelled s w) = ui_messages w @ [cancelMsg s]
     \<and> role (cancelMsg s) = Assistant
     \<and> content (cancelMsg s) = CANCEL_TEXT
     \<and> length (ui_messages (handleCancelled s w)) = length (ui_messages w) + 1
     \<and> mockStore (handleCancelled s w) = mockStore w
     \<and> requests (handleCancelled s w) = requests w
     \<and> sessionId (handleCancelled s w) = sessionId w"
  by (simp add: handleCancelled_def cancelMsg_def)

theorem handleCancelled_clears_and_acknowledges_witness:
  "pendingPost (handleCancelled \<lparr>uuid = ''u9'', now = ''t9''\<rparr>
      \<lparr>ui_messages = [\<lparr>msg_id = ''u1'', role = User, content = ''post it'', created_at = ''t1''\<rparr>],
       input = [], sessionId = Some ''s-1'', loading = False, error = [],
       lastSteps = CANNED_STEPS,
       pendingPost = Some \<lparr>content_type = Idea, topic = ''RAG'', phase = ''Other'',
         problem = ''p'', solution = ''s'', source_ref = [], tags = [''rag'']\<rparr>,
       mockStore = Map.empty, requests = [PostChat ''demo-agent-1'' ''post it'' None]\<rparr>) = None
   \<and> map content (ui_messages (handleCancelled \<lparr>uuid = ''u9'', now = ''t9''\<rparr>
      \<lparr>ui_messages = [\<lparr>msg_id = ''u1'', role = User, content = ''post it'', created_at = ''t1''\<rparr>],
       input = [], sessionId = Some ''s-1'', loading = False, error = [],
       lastSteps = CANNED_STEPS,
       pendingPost = Some \<lparr>content_type = Idea, topic = ''RAG'', phase = ''Other'',
         problem = ''p'', solution = ''s'', source_ref = [], tags = [''rag'']\<rparr>,
       mockStore = Map.empty, requests = [PostChat ''demo-agent-1'' ''post it'' None]\<rparr>))
      = [''post it'', CANCEL_TEXT]
   \<and> requests (handleCancelled \<lparr>uuid = ''u9'', now = ''t9''\<rparr>
      \<lparr>ui_messages = [\<lparr>msg_id = ''u1'', role = User, content = ''post it'', created_at = ''t1''\<rparr>],
       input = [], sessionId = Some ''s-1'', loading = False, error = [],
       lastSteps = CANNED_STEPS,
       pendingPost = Some \<lparr>content_type = Idea, topic = ''RAG'', phase = ''Other'',
         problem = ''p'', solution = ''s'', source_ref = [], tags = [''rag'']\<rparr>,
       mockStore = Map.empty, requests = [PostChat ''demo-agent-1'' ''post it'' None]\<rparr>)
      = [PostChat ''demo-agent-1'' ''post it'' None]"
  using handleCancelled_clears_and_acknowledges [of
      "\<lparr>ui_messages = [\<lparr>msg_id = ''u1'', role = User, content = ''post it'', created_at = ''t1''\<rparr>],
       input = [], sessionId = Some ''s-1'', loading = False, error = [],
       lastSteps = CANNED_STEPS,
       pendingPost = Some \<lparr>content_type = Idea, topic = ''RAG'', phase = ''Other'',
         problem = ''p'', solution = ''s'', source_ref = [], tags = [''rag'']\<rparr>,
       mockStore = Map.empty, requests = [PostChat ''demo-agent-1'' ''post it'' None]\<rparr>"
      "\<lparr>content_type = Idea, topic = ''RAG'', phase = ''Other'',
         problem = ''p'', solution = ''s'', source_ref = [], tags = [''rag'']\<rparr>"
      "\<lparr>uuid = ''u9'', now = ''t9''\<rparr>"]
  by simp

section \<open>Message history of the mock backend\<close>

text \<open>
  Claim C7. Every \<open>mockSendChat\<close> call returns, and stores under its session id, the
  session's previous history followed by exactly the user message and the assistant
  reply. After any sequence of calls the history of a session is its initial history
  followed by the exchanges of the calls on that session, in call order: two messages
  more per call, nothing reordered or deleted.
\<close>

theorem mockSendChat_history_append_only:
  "messages (fst (mockSendChat st su sa agentId message sid_opt))
     = history_of st (mint_sid agentId sid_opt)
       @ [userMsg su message, assistantMsg sa (reply (fst (mockSendChat st su sa agentId message sid_opt)))]
   \<and> history_of (snd (mockSendChat st su sa agentId message sid_opt)) (mint_sid agentId sid_opt)
     = messages (fst (mockSendChat st su sa agentId message sid_opt))
   \<and> role (userMsg su message) = User \<and> content (userMsg su message) = message
   \<and> role (assistantMsg sa rep) = Assistant \<and> content (assistantMsg sa rep) = rep
   \<and> history_of (run_calls st cs) sid
     = history_of st sid @ concat (map exchange (filter (\<lambda>c. call_sid c = sid) cs))
   \<and> length (history_of (run_calls st cs) sid)
     = length (history_of st sid) + 2 * length (filter (\<lambda>c. call_sid c = sid) cs)"
proof -
  have a: "messages (fst (mockSendChat st su sa agentId message sid_opt))
     = history_of st (mint_sid agentId sid_opt)
       @ [userMsg su message, assistantMsg sa (reply (fst (mockSendChat st su sa agentId message sid_opt)))]"
    by (simp add: mockSendChat_messages mockSendChat_reply)
  have b: "history_of (snd (mockSendChat st su sa agentId message sid_opt)) (mint_sid agentId sid_opt)
     = messages (fst (mockSendChat st su sa agentId message sid_opt))"
    by (simp add: mockSendChat_store mockSendChat_messages history_of_def)
  have c: "role (userMsg su message) = User \<and> content (userMsg su message) = message
     \<and> role (assistantMsg sa rep) = Assistant \<and> content (assistantMsg sa rep) = rep"
    by (simp add: userMsg_def assistantMsg_def)
  have d: "history_of (run_calls st cs) sid
     = history_of st sid @ concat (map exchange (filter (\<lambda>c. call_sid c = sid) cs))"
    by (rule run_calls_history)
  have e: "length (history_of (run_calls st cs) sid)
     = length (history_of st sid) + 2 * length (filter (\<lambda>c. call_sid c = sid) cs)"
    by (simp add: d length_concat_exchange)
  from a b c d e show ?thesis by blast
qed

theorem mockSendChat_history_append_only_witness:
  "length (history_of (run_calls Map.empty
      [\<lparr>c_agentId = ''demo-agent-1'', c_message = ''hello'', c_sessionId = Some ''s-1'',
        c_su = \<lparr>uuid = ''u1'', now = ''t1''\<rparr>, c_sa = \<lparr>uuid = ''u2'', now = ''t2''\<rparr>\<rparr>,
       \<lparr>c_agentId = ''demo-agent-2'', c_message = ''hey'', c_sessionId = None,
        c_su = \<lparr>uuid = ''u3'', now = ''t3''\<rparr>, c_sa = \<lparr>uuid = ''u4'', now = ''t4''\<rparr>\<rparr>,
       \<lparr>c_agentId = ''demo-agent-1'', c_message = ''how'', c_sessionId = Some ''s-1'',
        c_su = \<lparr>uuid = ''u5'', now = ''t5''\<rparr>, c_sa = \<lparr>uuid = ''u6'', now = ''t6''\<rparr>\<rparr>]) ''s-1'') = 4
   \<and> map msg_id (history_of (run_calls Map.empty
      [\<lparr>c_agentId = ''demo-agent-1'', c_message = ''hello'', c_sessionId = Some ''s-1'',
        c_su = \<lparr>uuid = ''u1'', now = ''t1''\<rparr>, c_sa = \<lparr>uuid = ''u2'', now = ''t2''\<rparr>\<rparr>,
       \<lparr>c_agentId = ''demo-agent-2'', c_message = ''hey'', c_sessionId = None,
        c_su = \<lparr>uuid = ''u3'', now = ''t3''\<rparr>, c_sa = \<lparr>uuid = ''u4'', now = ''t4''\<rparr>\<rparr>,
       \<lparr>c_agentId = ''demo-agent-1'', c_message = ''how'', c_sessionId = Some ''s-1'',
        c_su = \<lparr>uuid = ''u5'', now = ''t5''\<rparr>, c_sa = \<lparr>uuid = ''u6'', now = ''t6''\<rparr>\<rparr>]) ''s-1'')
     = [''u1'', ''u2'', ''u5'', ''u6'']"
  using mockSendChat_history_append_only [where st = Map.empty and sid = "''s-1''" and cs =
      "[\<lparr>c_agentId = ''demo-agent-1'', c_message = ''hello'', c_sessionId = Some ''s-1'',
        c_su = \<lparr>uuid = ''u1'', now = ''t1''\<rparr>, c_sa = \<lparr>uuid = ''u2'', now = ''t2''\<rparr>\<rparr>,
       \<lparr>c_agentId = ''demo-agent-2'', c_message = ''hey'', c_sessionId = None,
        c_su = \<lparr>uuid = ''u3'', now = ''t3''\<rparr>, c_sa = \<lparr>uuid = ''u4'', now = ''t4''\<rparr>\<rparr>,
       \<lparr>c_agentId = ''demo-agent-1'', c_message = ''how'', c_sessionId = Some ''s-1'',
        c_su = \<lparr>uuid = ''u5'', now = ''t5''\<rparr>, c_sa = \<lparr>uuid = ''u6'', now = ''t6''\<rparr>\<rparr>]"]
  by (simp add: call_sid_def mint_sid_def history_of_def exchange_def userMsg_def assistantMsg_def)

lemma run_calls_prefix: "prefix (history_of st sid) (history_of (run_calls st cs) sid)"
  by (simp add: run_calls_history)

lemma mint_sid_None_nonempty: "mint_sid a None \<noteq> []"
  by (simp add: mint_sid_def)

text \<open>
  Claim C8. A \<open>mockSendChat\<close> call without a session id returns a non-empty
  \<open>session_id\<close>; a later call that supplies this id (after any further
  \<open>mockSendChat\<close> calls \<open>cs\<close>) answers under the same id with a message list that has
  the first call's message list as a prefix, and when it follows directly it returns the
  first call's messages plus its own two.
\<close>

theorem minted_session_id_continues_conversation:
  "(case mockSendChat st su sa agentId message None of
      (r1, st1) \<Rightarrow>
        session_id r1 \<noteq> []
        \<and> (case mockSendChat (run_calls st1 cs) su' sa' agentId' message' (Some (session_id r1)) of
             (r2, st2) \<Rightarrow>
               session_id r2 = session_id r1
               \<and> prefix (messages r1) (messages r2)
               \<and> messages r2 = history_of (run_calls st1 cs) (session_id r1)
                    @ [userMsg su' message', assistantMsg sa' (reply r2)]))
   \<and> (case mockSendChat st su sa agentId message None of
      (r1, st1) \<Rightarrow>
        (case mockSendChat st1 su' sa' agentId' message' (Some (session_id r1)) of
           (r2, st2) \<Rightarrow>
             messages r2 = messages r1 @ [userMsg su' message', assistantMsg sa' (reply r2)]))"
proof -
  obtain r1 st1 where e1: "mockSendChat st su sa agentId message None = (r1, st1)"
    by (cases "mockSendChat st su sa agentId message None")
  obtain r2 st2 where e2:
    "mockSendChat (run_calls st1 cs) su' sa' agentId' message' (Some (session_id r1)) = (r2, st2)"
    by (cases "mockSendChat (run_calls st1 cs) su' sa' agentId' message' (Some (session_id r1))")
  obtain r3 st3 where e3:
    "mockSendChat st1 su' sa' agentId' message' (Some (session_id r1)) = (r3, st3)"
    by (cases "mockSendChat st1 su' sa' agentId' message' (Some (session_id r1))")
  have r1: "r1 = fst (mockSendChat st su sa agentId message None)"
    and st1: "st1 = snd (mockSendChat st su sa agentId message None)"
    using e1 by simp_all
  have r2: "r2 = fst (mockSendChat (run_calls st1 cs) su' sa' agentId' message' (Some (session_id r1)))"
    using e2 by simp
  have r3: "r3 = fst (mockSendChat st1 su' sa' agentId' message' (Some (session_id r1)))"
    using e3 by simp
  have sid1: "session_id r1 = mint_sid agentId None"
    by (simp add: r1 mockSendChat_session_id)
  have ne: "session_id r1 \<noteq> []"
    by (simp add: sid1 mint_sid_None_nonempty)
  have sid2: "session_id r2 = session_id r1"
    by (simp add: r2 mockSendChat_session_id mint_sid_def)
  have h1: "history_of st1 (session_id r1) = messages r1"
    by (simp add: st1 r1 mockSendChat_store mockSendChat_messages mockSendChat_session_id
        history_of_def)
  have m2: "messages r2 = history_of (run_calls st1 cs) (session_id r1)
                    @ [userMsg su' message', assistantMsg sa' (reply r2)]"
    by (simp add: r2 mockSendChat_messages mockSendChat_reply mint_sid_def)
  have "prefix (messages r1) (history_of (run_calls st1 cs) (session_id r1))"
    using run_calls_prefix [of st1 "session_id r1" cs] by (simp add: h1)
  then have p2: "prefix (messages r1) (messages r2)"
    by (simp add: m2)
  have m3: "messages r3 = messages r1 @ [userMsg su' message', assistantMsg sa' (reply r3)]"
    using h1 by (simp add: r3 mockSendChat_messages mockSendChat_reply mint_sid_def)
  show ?thesis
    using ne sid2 p2 m2 m3 by (simp add: e1 e2 e3)
qed

theorem minted_session_id_continues_conversation_witness:
  "session_id (fst (mockSendChat Map.empty \<lparr>uuid = ''u1'', now = ''t1''\<rparr>
       \<lparr>uuid = ''u2'', now = ''t2''\<rparr> ''demo-agent-1'' ''hello'' None)) = ''demo-session-demo-agent-1''
   \<and> map msg_id (messages (fst (mockSendChat
        (snd (mockSendChat Map.empty \<lparr>uuid = ''u1'', now = ''t1''\<rparr>
           \<lparr>uuid = ''u2'', now = ''t2''\<rparr> ''demo-agent-1'' ''hello'' None))
        \<lparr>uuid = ''u3'', now = ''t3''\<rparr> \<lparr>uuid = ''u4'', now = ''t4''\<rparr>
        ''demo-agent-1'' ''how'' (Some ''demo-session-demo-agent-1''))))
     = [''u1'', ''u2'', ''u3'', ''u4'']"
  using minted_session_id_continues_conversation [where st = Map.empty
       and su = "\<lparr>uuid = ''u1'', now = ''t1''\<rparr>" and sa = "\<lparr>uuid = ''u2'', now = ''t2''\<rparr>"
       and agentId = "''demo-agent-1''" and message = "''hello''" and cs = "[]"
       and su' = "\<lparr>uuid = ''u3'', now = ''t3''\<rparr>" and sa' = "\<lparr>uuid = ''u4'', now = ''t4''\<rparr>"
       and agentId' = "''demo-agent-1''" and message' = "''how''"]
  by (simp add: case_prod_unfold mockSendChat_session_id mint_sid_def mockSendChat_messages
      history_of_def userMsg_def assistantMsg_def)

text \<open>
  Claim C9. \<open>mockGetChatHistory\<close> returns exactly the exchanges of the earlier
  \<open>mockSendChat\<close> calls on that session, in order (after whatever the session held
  before them; nothing on a fresh store). After \<open>mockClearChatHistory\<close> on the session
  its entry is gone, \<open>mockGetChatHistory\<close> returns the empty list, and the next
  message starts a new log.
\<close>

theorem getHistory_and_clearHistory:
  "h_messages (mockGetChatHistory (run_calls Map.empty cs) agentId sid)
     = concat (map exchange (filter (\<lambda>c. call_sid c = sid) cs))
   \<and> h_messages (mockGetChatHistory (run_calls st cs) agentId sid)
     = history_of st sid @ concat (map exchange (filter (\<lambda>c. call_sid c = sid) cs))
   \<and> h_messages (mockGetChatHistory (mockClearChatHistory st sid) agentId sid) = []
   \<and> mockClearChatHistory st sid sid = None
   \<and> messages (fst (mockSendChat (mockClearChatHistory st sid) su sa agentId message (Some sid)))
     = [userMsg su message, assistantMsg sa (pickReply message (agentName_of agentId))]"
proof -
  have g: "\<And>s. h_messages (mockGetChatHistory s agentId sid) = history_of s sid"
    by (simp add: mockGetChatHistory_def history_of_def)
  have a: "h_messages (mockGetChatHistory (run_calls st cs) agentId sid)
     = history_of st sid @ concat (map exchange (filter (\<lambda>c. call_sid c = sid) cs))" for st
    by (simp add: g run_calls_history)
  have e: "history_of Map.empty sid = []"
    by (simp add: history_of_def)
  have c: "history_of (mockClearChatHistory st sid) sid = []"
    by (simp add: history_of_def mockClearChatHistory_def)
  have d: "mockClearChatHistory st sid sid = None"
    by (simp add: mockClearChatHistory_def)
  have f: "messages (fst (mockSendChat (mockClearChatHistory st sid) su sa agentId message (Some sid)))
     = [userMsg su message, assistantMsg sa (pickReply message (agentName_of agentId))]"
    by (simp add: mockSendChat_messages mint_sid_def c)
  show ?thesis
    using a [of Map.empty] a [of st] c d f by (simp add: e g)
qed

theorem getHistory_and_clearHistory_witness:
  "map msg_id (h_messages (mockGetChatHistory (run_calls Map.empty
      [\<lparr>c_agentId = ''demo-agent-1'', c_message = ''hello'', c_sessionId = Some ''s-1'',
        c_su = \<lparr>uuid = ''u1'', now = ''t1''\<rparr>, c_sa = \<lparr>uuid = ''u2'', now = ''t2''\<rparr>\<rparr>])
      ''demo-agent-1'' ''s-1'')) = [''u1'', ''u2'']
   \<and> h_messages (mockGetChatHistory (mockClearChatHistory (run_calls Map.empty
      [\<lparr>c_agentId = ''demo-agent-1'', c_message = ''hello'', c_sessionId = Some ''s-1'',
        c_su = \<lparr>uuid = ''u1'', now = ''t1''\<rparr>, c_sa = \<lparr>uuid = ''u2'', now = ''t2''\<rparr>\<rparr>]) ''s-1'')
      ''demo-agent-1'' ''s-1'') = []"
proof -
  let ?cs = "[\<lparr>c_agentId = ''demo-agent-1'', c_message = ''hello'', c_sessionId = Some ''s-1'',
        c_su = \<lparr>uuid = ''u1'', now = ''t1''\<rparr>, c_sa = \<lparr>uuid = ''u2'', now = ''t2''\<rparr>\<rparr>]"
  from getHistory_and_clearHistory [where cs = ?cs and agentId = "''demo-agent-1''"
      and sid = "''s-1''" and st = "run_calls Map.empty ?cs"]
  have a: "h_messages (mockGetChatHistory (run_calls Map.empty ?cs) ''demo-agent-1'' ''s-1'')
     = concat (map exchange (filter (\<lambda>c. call_sid c = ''s-1'') ?cs))"
    and b: "h_messages (mockGetChatHistory (mockClearChatHistory (run_calls Map.empty ?cs) ''s-1'')
      ''demo-agent-1'' ''s-1'') = []"
    by blast+
  show ?thesis
    unfolding a b
    by (simp add: call_sid_def mint_sid_def exchange_def userMsg_def assistantMsg_def)
qed

text \<open>
  Claim C10. Every \<open>mockSendChat\<close> call without a session id mints the id
  \<open>demo-session-\<close> followed by the agent id, whatever the store and the message. Two
  conversations started without a session id against the same agent therefore share
  one history: the second sees the first one's messages and appends to them.
\<close>

theorem omitted_session_id_is_shared:
  "session_id (fst (mockSendChat st su sa agentId message None)) = ''demo-session-'' @ agentId
   \<and> session_id (fst (mockSendChat st' su' sa' agentId message' None))
     = session_id (fst (mockSendChat st su sa agentId message None))
   \<and> messages (fst (mockSendChat (snd (mockSendChat st su sa agentId message None))
                     su' sa' agentId message' None))
     = messages (fst (mockSendChat st su sa agentId message None))
       @ [userMsg su' message', assistantMsg sa' (pickReply message' (agentName_of agentId))]
   \<and> messages (fst (mockSendChat (run_calls (snd (mockSendChat st su sa agentId message None)) cs)
                     su' sa' agentId message' None))
     = messages (fst (mockSendChat st su sa agentId message None))
       @ concat (map exchange (filter (\<lambda>c. call_sid c = ''demo-session-'' @ agentId) cs))
       @ [userMsg su' message', assistantMsg sa' (pickReply message' (agentName_of agentId))]"
proof -
  have h: "history_of (snd (mockSendChat st su sa agentId message None)) (mint_sid agentId None)
      = messages (fst (mockSendChat st su sa agentId message None))"
    by (simp add: mockSendChat_store mockSendChat_messages history_of_def)
  have m: "mint_sid agentId None = ''demo-session-'' @ agentId"
    by (simp add: mint_sid_def)
  show ?thesis
    using h unfolding m
    by (simp add: mockSendChat_session_id mockSendChat_messages [of "snd _"]
        mockSendChat_messages [of "run_calls _ _"] run_calls_history m)
qed

theorem omitted_session_id_is_shared_witness:
  "session_id (fst (mockSendChat Map.empty \<lparr>uuid = ''u1'', now = ''t1''\<rparr>
       \<lparr>uuid = ''u2'', now = ''t2''\<rparr> ''demo-agent-3'' ''hello'' None)) = ''demo-session-demo-agent-3''
   \<and> map msg_id (messages (fst (mockSendChat
        (snd (mockSendChat Map.empty \<lparr>uuid = ''u1'', now = ''t1''\<rparr>
           \<lparr>uuid = ''u2'', now = ''t2''\<rparr> ''demo-agent-3'' ''hello'' None))
        \<lparr>uuid = ''u3'', now = ''t3''\<rparr> \<lparr>uuid = ''u4'', now = ''t4''\<rparr>
        ''demo-agent-3'' ''a new chat'' None)))
     = [''u1'', ''u2'', ''u3'', ''u4'']"
proof -
  from omitted_session_id_is_shared [where st = Map.empty
       and su = "\<lparr>uuid = ''u1'', now = ''t1''\<rparr>" and sa = "\<lparr>uuid = ''u2'', now = ''t2''\<rparr>"
       and agentId = "''demo-agent-3''" and message = "''hello''" and st' = Map.empty
       and su' = "\<lparr>uuid = ''u3'', now = ''t3''\<rparr>" and sa' = "\<lparr>uuid = ''u4'', now = ''t4''\<rparr>"
       and message' = "''a new chat''" and cs = "[]"]
  have a: "session_id (fst (mockSendChat Map.empty \<lparr>uuid = ''u1'', now = ''t1''\<rparr>
       \<lparr>uuid = ''u2'', now = ''t2''\<rparr> ''demo-agent-3'' ''hello'' None)) = ''demo-session-'' @ ''demo-agent-3''"
   and b: "messages (fst (mockSendChat
        (snd (mockSendChat Map.empty \<lparr>uuid = ''u1'', now = ''t1''\<rparr>
           \<lparr>uuid = ''u2'', now = ''t2''\<rparr> ''demo-agent-3'' ''hello'' None))
        \<lparr>uuid = ''u3'', now = ''t3''\<rparr> \<lparr>uuid = ''u4'', now = ''t4''\<rparr>
        ''demo-agent-3'' ''a new chat'' None))
     = messages (fst (mockSendChat Map.empty \<lparr>uuid = ''u1'', now = ''t1''\<rparr>
           \<lparr>uuid = ''u2'', now = ''t2''\<rparr> ''demo-agent-3'' ''hello'' None))
       @ [userMsg \<lparr>uuid = ''u3'', now = ''t3''\<rparr> ''a new chat'',
          assistantMsg \<lparr>uuid = ''u4'', now = ''t4''\<rparr> (pickReply ''a new chat'' (agentName_of ''demo-agent-3''))]"
    by blast+
  show ?thesis
    unfolding b using a
    by (simp add: mockSendChat_messages history_of_def userMsg_def assistantMsg_def)
qed

end
